theory Spec2Isabelle
  imports Main
begin

section \<open>Position context inside an XML document (server/services/context.py)\<close>

text \<open>
  The module resolves which token (tag, attribute key, attribute value) lies under a
  cursor position of an XML document that is being edited. Python strings are modelled
  as HOL strings (code points below 256), Python integers as \<open>int\<close>, exceptions as
  values of the type \<open>error\<close>. A method that mutates the shared context object takes
  the context and returns it together with the exception it raised, if any: the
  mutations made before a \<open>raise\<close> stay visible to the caller, as in Python.
\<close>

subsection \<open>Exceptions and Python sequence indexing\<close>

datatype error = IndexError | TypeError | ContextFoundException | OtherException string

text \<open>\<open>xs[i]\<close> in Python: a negative index counts from the end, anything else out of
  range raises IndexError.\<close>

definition py_index :: "'a list \<Rightarrow> int \<Rightarrow> error + 'a" where
  "py_index xs i =
     (if 0 \<le> i \<and> i < int (length xs) then Inr (xs ! nat i)
      else if i < 0 \<and> - int (length xs) \<le> i then Inr (xs ! nat (int (length xs) + i))
      else Inl IndexError)"

subsection \<open>Unicode classes, restricted to the code points below 256\<close>

text \<open>\<open>str.isspace\<close>: the characters that \<open>str.strip()\<close> removes.\<close>

definition py_isspace :: "char \<Rightarrow> bool" where
  "py_isspace c = (of_char c \<in> {9::nat, 10, 11, 12, 13, 28, 29, 30, 31, 32, 133, 160})"

definition strip :: "string \<Rightarrow> string" where
  "strip s = rev (dropWhile py_isspace (rev (dropWhile py_isspace s)))"

text \<open>The class \<open>[a-z]\<close> of the two patterns.\<close>

definition is_az :: "char \<Rightarrow> bool" where
  "is_az c = (97 \<le> (of_char c :: nat) \<and> (of_char c :: nat) \<le> 122)"

text \<open>The class \<open>[\w.]\<close> of a \<open>str\<close> pattern: alphanumeric characters, the underscore
  and the dot.\<close>

definition is_word_or_dot :: "char \<Rightarrow> bool" where
  "is_word_or_dot c =
     (let n = (of_char c :: nat) in
        (48 \<le> n \<and> n \<le> 57) \<or> (65 \<le> n \<and> n \<le> 90) \<or> (97 \<le> n \<and> n \<le> 122)
        \<or> n = 95 \<or> n = 46
        \<or> n \<in> {170, 178, 179, 181, 185, 186, 188, 189, 190}
        \<or> (192 \<le> n \<and> n \<le> 214) \<or> (216 \<le> n \<and> n \<le> 246) \<or> 248 \<le> n)"

subsection \<open>Data model\<close>

text \<open>\<open>pygls.workspace.Position\<close>; \<open>Position()\<close> is line 0, character 0.\<close>

record Position =
  line :: int
  character :: int

definition Position_default :: Position where
  "Position_default = \<lparr>line = 0, character = 0\<rparr>"

text \<open>\<open>pygls.workspace.Document\<close>, as far as this module reads it: the whole text and
  the list of its lines.\<close>

record Document =
  source :: string
  lines :: "string list"

datatype ContextTokenType = UNKNOWN | TAG | ATTRIBUTE_KEY | ATTRIBUTE_VALUE

text \<open>
  \<open>class XmlContext\<close>. The first seven fields are the attributes that \<open>__init__\<close>
  creates. The last three are the instance attributes \<open>is_tag\<close>, \<open>is_attribute\<close> and
  \<open>is_attribute_value\<close> that the two handlers assign: \<open>None\<close> while the instance has
  no attribute of that name (the lookup then reaches the method of the class, if there is
  one), \<open>Some b\<close> once the instance attribute holds \<open>b\<close>.
\<close>

record 'n XmlContext =
  document_line :: string
  target_position :: Position
  is_empty :: bool
  token_name :: "string option"
  token_type :: ContextTokenType
  node :: "'n option"
  node_stack :: "string list"
  is_tag :: "bool option"
  is_attribute :: "bool option"
  is_attribute_value :: "bool option"

definition XmlContext_init ::
  "string \<Rightarrow> Position \<Rightarrow> bool \<Rightarrow> string option \<Rightarrow> ContextTokenType \<Rightarrow> 'n XmlContext" where
  "XmlContext_init document_line_arg position is_empty_arg token_name_arg token_type_arg =
     \<lparr>document_line = document_line_arg, target_position = position,
      is_empty = is_empty_arg, token_name = token_name_arg, token_type = token_type_arg,
      node = None, node_stack = [],
      is_tag = None, is_attribute = None, is_attribute_value = None\<rparr>"

text \<open>The calls \<open>context.is_tag()\<close>, \<open>context.is_attribute_key()\<close> and
  \<open>context.is_attribute_value()\<close>: calling an instance attribute that holds a bool
  raises TypeError.\<close>

definition call_is_tag :: "'n XmlContext \<Rightarrow> error + bool" where
  "call_is_tag self =
     (case is_tag self of None \<Rightarrow> Inr (token_type self = TAG) | Some b \<Rightarrow> Inl TypeError)"

definition call_is_attribute_key :: "'n XmlContext \<Rightarrow> error + bool" where
  "call_is_attribute_key self = Inr (token_type self = ATTRIBUTE_KEY)"

definition call_is_attribute_value :: "'n XmlContext \<Rightarrow> error + bool" where
  "call_is_attribute_value self =
     (case is_attribute_value self of
        None \<Rightarrow> Inr (token_type self = ATTRIBUTE_VALUE)
      | Some b \<Rightarrow> Inl TypeError)"

text \<open>
  \<open>XsdTree\<close> (module \<open>.xsd.types\<close>) is used through its attribute \<open>root\<close> and its
  method \<open>find_node_by_name\<close> only. Both are parameters here: the lookup may raise, may
  return \<open>None\<close> or may return a node.
\<close>

record 'n XsdTree =
  root :: 'n
  find_node_by_name :: "string \<Rightarrow> error + 'n option"

definition update_node_definition :: "'n XsdTree \<Rightarrow> 'n XmlContext \<Rightarrow> error + 'n XmlContext" where
  "update_node_definition xsd_tree self =
     (case py_index (node_stack self) (- 1) of
        Inl IndexError \<Rightarrow> Inr (self\<lparr>node := Some (root xsd_tree)\<rparr>)
      | Inl e \<Rightarrow> Inl e
      | Inr last_node_in_path \<Rightarrow>
          (case find_node_by_name xsd_tree last_node_in_path of
             Inl IndexError \<Rightarrow> Inr (self\<lparr>node := Some (root xsd_tree)\<rparr>)
           | Inl e \<Rightarrow> Inl e
           | Inr found \<Rightarrow> Inr (self\<lparr>node := found\<rparr>)))"

subsection \<open>ContextBuilderHandler\<close>

text \<open>The locator of the reader: \<open>getLineNumber()\<close> (counted from 1) and
  \<open>getColumnNumber()\<close> at the time of a callback.\<close>

record Locator =
  getLineNumber :: int
  getColumnNumber :: int

definition get_current_position :: "Locator \<Rightarrow> Position" where
  "get_current_position loc = \<lparr>line = getLineNumber loc - 1, character = getColumnNumber loc\<rparr>"

text \<open>The loop over \<open>attributes.items()\<close>, with the running offset \<open>accum\<close>.\<close>

fun attributes_loop ::
  "int \<Rightarrow> (string \<times> string) list \<Rightarrow> 'n XmlContext \<Rightarrow> error option \<times> 'n XmlContext" where
  "attributes_loop accum [] context = (None, context)"
| "attributes_loop accum ((attr_name, attr_value) # items) context =
     (let target_offset = character (target_position context);
          attr_start = accum + 1;
          attr_end = attr_start + int (length attr_name)
      in if attr_start \<le> target_offset \<and> target_offset \<le> attr_end
         then (Some ContextFoundException,
               context\<lparr>is_attribute := Some True, token_name := Some attr_name\<rparr>)
         else
           (let attr_value_start = attr_end + 2;
                attr_value_end = attr_value_start + int (length attr_value)
            in if attr_value_start \<le> target_offset \<and> target_offset \<le> attr_value_end
               then (Some ContextFoundException,
                     context\<lparr>is_attribute_value := Some True, token_name := Some attr_value\<rparr>)
               else attributes_loop attr_value_end items context))"

definition build_context_from_element_line ::
  "int \<Rightarrow> string \<Rightarrow> (string \<times> string) list \<Rightarrow> 'n XmlContext
     \<Rightarrow> error option \<times> 'n XmlContext" where
  "build_context_from_element_line start_position tag attributes context =
     (let target_offset = character (target_position context);
          tag_offset = start_position + int (length tag)
      in if start_position < target_offset \<and> target_offset \<le> tag_offset
         then (Some ContextFoundException,
               context\<lparr>is_tag := Some True, token_name := Some tag\<rparr>)
         else attributes_loop (tag_offset + 1) attributes context)"

definition startElement ::
  "Locator \<Rightarrow> string \<Rightarrow> (string \<times> string) list \<Rightarrow> 'n XmlContext
     \<Rightarrow> error option \<times> 'n XmlContext" where
  "startElement loc tag attributes context =
     (let context1 = context\<lparr>node_stack := node_stack context @ [tag]\<rparr>;
          current_position = get_current_position loc
      in if line current_position = line (target_position context1)
         then build_context_from_element_line (character current_position) tag attributes
                context1
         else (None, context1))"

text \<open>\<open>node_stack.pop(-1)\<close> raises IndexError on an empty list.\<close>

definition endElement :: "string \<Rightarrow> 'n XmlContext \<Rightarrow> error option \<times> 'n XmlContext" where
  "endElement tag context =
     (if node_stack context = [] then (Some IndexError, context)
      else (None, context\<lparr>node_stack := butlast (node_stack context)\<rparr>))"

subsection \<open>ContextParseErrorHandler\<close>

text \<open>A match of \<open>START_TAG_REGEX\<close> or of \<open>ATTR_KEY_VALUE_REGEX\<close>: for each group its
  \<open>start\<close>, its \<open>end\<close> and its text.\<close>

record re_group =
  group_start :: int
  group_end :: int
  group_text :: string

text \<open>
  \<open>re.search(r"<([a-z]+)[ \n]?", line)\<close>: the leftmost \<open><\<close> that is followed by a
  lowercase letter; group 1 is the longest run of lowercase letters after it. The
  result is group 1 of the match.
\<close>

fun search_start_tag :: "int \<Rightarrow> string \<Rightarrow> re_group option" where
  "search_start_tag i [] = None"
| "search_start_tag i (c # cs) =
     (if c = CHR ''<'' \<and> takeWhile is_az cs \<noteq> []
      then Some \<lparr>group_start = i + 1,
                 group_end = i + 1 + int (length (takeWhile is_az cs)),
                 group_text = takeWhile is_az cs\<rparr>
      else search_start_tag (i + 1) cs)"

text \<open>
  A match of \<open>r" ([a-z]*)=\"([\w.]*)[\"]?"\<close> starting at offset \<open>i\<close> of the line, of
  which \<open>s\<close> is the rest: a space, the longest run of lowercase letters, \<open>="\<close>, the
  longest run of word characters and dots, and a closing quote if there is one. The
  result is group 1, group 2 and the length of the whole match.
\<close>

definition match_attr_at :: "int \<Rightarrow> string \<Rightarrow> (re_group \<times> re_group \<times> nat) option" where
  "match_attr_at i s =
     (case s of
        [] \<Rightarrow> None
      | c # cs \<Rightarrow>
          if c \<noteq> CHR '' '' then None
          else
            (let key = takeWhile is_az cs; after_key = dropWhile is_az cs
             in case after_key of
                  e # q # rest \<Rightarrow>
                    if e = CHR ''='' \<and> q = CHR 0x22
                    then
                      (let val = takeWhile is_word_or_dot rest;
                           after_val = dropWhile is_word_or_dot rest;
                           closing = (case after_val of [] \<Rightarrow> 0
                                      | d # _ \<Rightarrow> if d = CHR 0x22 then 1 else (0::nat));
                           key_start = i + 1;
                           key_end = key_start + int (length key);
                           val_start = key_end + 2;
                           val_end = val_start + int (length val)
                       in Some (\<lparr>group_start = key_start, group_end = key_end,
                                   group_text = key\<rparr>,
                                \<lparr>group_start = val_start, group_end = val_end,
                                   group_text = val\<rparr>,
                                1 + length key + 2 + length val + closing))
                    else None
                | _ \<Rightarrow> None))"

text \<open>
  \<open>re.finditer\<close>: the matches from left to right, each search starting where the
  previous match ended. \<open>skip\<close> counts the characters of the current match that are
  still to be passed over.
\<close>

fun finditer_attr :: "int \<Rightarrow> nat \<Rightarrow> string \<Rightarrow> (re_group \<times> re_group) list" where
  "finditer_attr i skip [] = []"
| "finditer_attr i (Suc skip) (c # cs) = finditer_attr (i + 1) skip cs"
| "finditer_attr i 0 (c # cs) =
     (case match_attr_at i (c # cs) of
        None \<Rightarrow> finditer_attr (i + 1) 0 cs
      | Some (key, val, len) \<Rightarrow> (key, val) # finditer_attr (i + 1) (len - 1) cs)"

definition try_get_tag_context_at_line_position ::
  "int \<Rightarrow> 'n XmlContext \<Rightarrow> error option \<times> 'n XmlContext" where
  "try_get_tag_context_at_line_position target_offset context =
     (case search_start_tag 0 (document_line context) of
        None \<Rightarrow> (None, context)
      | Some tag_match \<Rightarrow>
          if group_start tag_match \<le> target_offset \<and> target_offset \<le> group_end tag_match
          then (Some ContextFoundException,
                context\<lparr>is_tag := Some True, token_name := Some (group_text tag_match)\<rparr>)
          else (None, context))"

fun attribute_matches_loop ::
  "int \<Rightarrow> (re_group \<times> re_group) list \<Rightarrow> 'n XmlContext \<Rightarrow> error option \<times> 'n XmlContext" where
  "attribute_matches_loop target_offset [] context = (None, context)"
| "attribute_matches_loop target_offset ((key, val) # matches) context =
     (if group_start key \<le> target_offset \<and> target_offset \<le> group_end key
      then (Some ContextFoundException,
            context\<lparr>is_attribute := Some True, token_name := Some (group_text key)\<rparr>)
      else if group_start val \<le> target_offset \<and> target_offset \<le> group_end val
      then (Some ContextFoundException,
            context\<lparr>is_attribute_value := Some True, token_name := Some (group_text val)\<rparr>)
      else attribute_matches_loop target_offset matches context)"

definition try_get_attribute_context_at_line_position ::
  "int \<Rightarrow> 'n XmlContext \<Rightarrow> error option \<times> 'n XmlContext" where
  "try_get_attribute_context_at_line_position target_offset context =
     attribute_matches_loop target_offset (finditer_attr 0 0 (document_line context)) context"

definition try_process_context_from_unclosed_token ::
  "int \<Rightarrow> 'n XmlContext \<Rightarrow> error option \<times> 'n XmlContext" where
  "try_process_context_from_unclosed_token start_offset context =
     (let target_offset = character (target_position context)
      in case try_get_tag_context_at_line_position target_offset context of
           (Some e, context1) \<Rightarrow> (Some e, context1)
         | (None, context1) \<Rightarrow>
             try_get_attribute_context_at_line_position target_offset context1)"

text \<open>\<open>xml.sax.SAXParseException\<close>, as far as the handler reads it.\<close>

record SAXParseException =
  getMessage :: string
  exc_LineNumber :: int
  exc_ColumnNumber :: int

definition get_position :: "SAXParseException \<Rightarrow> Position" where
  "get_position exception =
     \<lparr>line = exc_LineNumber exception - 1, character = exc_ColumnNumber exception\<rparr>"

definition fatalError :: "SAXParseException \<Rightarrow> 'n XmlContext \<Rightarrow> error option \<times> 'n XmlContext" where
  "fatalError exception context =
     (let position = get_position exception
      in if getMessage exception = ''unclosed token''
         then try_process_context_from_unclosed_token (character position) context
         else (None, context))"

subsection \<open>The reader and XmlContextParser\<close>

text \<open>
  \<open>reader.parse(source)\<close> is library code (the expat reader of \<open>xml.sax\<close>). It acts on
  the context only through the handler methods it calls, so a run of the reader is the
  sequence of these calls; a call that raises ends the run. The methods
  \<open>startDocument\<close>, \<open>endDocument\<close> and \<open>characters\<close> of the handler do nothing.
\<close>

datatype callback =
    StartDocument
  | EndDocument
  | StartElement Locator string "(string \<times> string) list"
  | EndElement string
  | Characters string
  | FatalError SAXParseException

fun dispatch :: "callback \<Rightarrow> 'n XmlContext \<Rightarrow> error option \<times> 'n XmlContext" where
  "dispatch StartDocument context = (None, context)"
| "dispatch EndDocument context = (None, context)"
| "dispatch (StartElement loc tag attributes) context = startElement loc tag attributes context"
| "dispatch (EndElement tag) context = endElement tag context"
| "dispatch (Characters content) context = (None, context)"
| "dispatch (FatalError exception) context = fatalError exception context"

fun reader_parse :: "callback list \<Rightarrow> 'n XmlContext \<Rightarrow> error option \<times> 'n XmlContext" where
  "reader_parse [] context = (None, context)"
| "reader_parse (cb # cbs) context =
     (case dispatch cb context of
        (Some e, context1) \<Rightarrow> (Some e, context1)
      | (None, context1) \<Rightarrow> reader_parse cbs context1)"

definition is_empty_document :: "Document \<Rightarrow> bool" where
  "is_empty_document document =
     (let xml_content = strip (source document)
      in xml_content = [] \<or> length xml_content < 2)"

text \<open>\<open>class XmlContextParser\<close>: its only attribute is \<open>_document\<close>.\<close>

record XmlContextParser =
  parser_document :: "Document option"

definition XmlContextParser_init :: XmlContextParser where
  "XmlContextParser_init = \<lparr>parser_document = None\<rparr>"

text \<open>
  \<open>XmlContextParser.parse\<close>. The parameter \<open>reader\<close> gives, for the text of a
  document, the calls that a new reader makes on its handlers. The result is the
  returned context or the exception that leaves the method, and the parser object.
\<close>

definition parse ::
  "(string \<Rightarrow> callback list) \<Rightarrow> XmlContextParser \<Rightarrow> Document \<Rightarrow> Position
     \<Rightarrow> (error + 'n XmlContext) \<times> XmlContextParser" where
  "parse reader self document position =
     (let self1 = self\<lparr>parser_document := Some document\<rparr>
      in if is_empty_document document
         then (Inr (XmlContext_init [] Position_default True None UNKNOWN), self1)
         else
           (case py_index (lines document) (line position) of
              Inl e \<Rightarrow> (Inl e, self1)
            | Inr context_line \<Rightarrow>
                (case reader_parse (reader (source document))
                        (XmlContext_init context_line position False None UNKNOWN) of
                   (None, context) \<Rightarrow> (Inr context, self1)
                 | (Some ContextFoundException, context) \<Rightarrow> (Inr context, self1)
                 | (Some e, context) \<Rightarrow> (Inl e, self1))))"

subsection \<open>XmlContextService\<close>

record 'n XmlContextService =
  xsd_tree :: "'n XsdTree"

text \<open>\<open>XmlContextService.get_xml_context\<close>: the result of the call and the service
  object after it.\<close>

definition get_xml_context ::
  "(string \<Rightarrow> callback list) \<Rightarrow> 'n XmlContextService \<Rightarrow> Document \<Rightarrow> Position
     \<Rightarrow> (error + 'n XmlContext) \<times> 'n XmlContextService" where
  "get_xml_context reader self document position =
     (case parse reader XmlContextParser_init document position of
        (Inl e, parser) \<Rightarrow> (Inl e, self)
      | (Inr context, parser) \<Rightarrow> (update_node_definition (xsd_tree self) context, self))"

subsection \<open>A model of the expat reader on plain element markup\<close>

text \<open>
  The theorems about every document hold for every \<open>reader\<close>. The theorems about one
  given document need the calls that the expat reader makes for it. \<open>expat_reader\<close>
  models them for documents made of start tags with quoted attribute values, end tags,
  empty-element tags and character data, with names of ASCII characters, given to the
  reader in one piece. Declarations, comments, processing instructions, CDATA sections
  and references are outside this fragment; the model reports them as not well-formed.
  Calls of \<open>characters\<close>, which does nothing, are left out.

  The locator of a start tag is the position of its \<open><\<close>: the line counted from 1,
  the column from 0. A fault found before the end of the input is reported twice, by
  \<open>feed\<close> and again by \<open>close\<close>; the faults \<open>unclosed token\<close> and \<open>no element found\<close>
  are found at the end of the input and reported by \<open>close\<close> alone. \<open>endDocument\<close> is
  called last, since \<open>fatalError\<close> returns.
\<close>

definition is_xml_space :: "char \<Rightarrow> bool" where
  "is_xml_space c = (of_char c \<in> {9::nat, 10, 13, 32})"

definition is_xml_char :: "char \<Rightarrow> bool" where
  "is_xml_char c = (32 \<le> (of_char c :: nat) \<or> is_xml_space c)"

definition is_name_start :: "char \<Rightarrow> bool" where
  "is_name_start c =
     (let n = (of_char c :: nat) in
        (65 \<le> n \<and> n \<le> 90) \<or> (97 \<le> n \<and> n \<le> 122) \<or> n = 95 \<or> n = 58)"

definition is_name_char :: "char \<Rightarrow> bool" where
  "is_name_char c =
     (let n = (of_char c :: nat) in
        is_name_start c \<or> (48 \<le> n \<and> n \<le> 57) \<or> n = 45 \<or> n = 46)"

text \<open>The result of scanning one tag from its \<open><\<close>: a complete start tag (name,
  attributes with the offsets of their names, empty-element flag, length), a complete end
  tag (name, length), the end of the input inside the tag, or a fault (message, offset).
  Offsets count from the \<open><\<close>.\<close>

datatype tag_scan =
    StartTag string "(string \<times> string \<times> nat) list" bool nat
  | EndTag string nat
  | Partial
  | Invalid string nat

datatype attr_state =
    AfterName
  | Gap
  | InKey nat string
  | AfterKey nat string
  | AfterEq nat string
  | InValue nat string char bool string
  | AfterValue
  | Slash

definition not_well_formed :: string where
  "not_well_formed = ''not well-formed (invalid token)''"

text \<open>The first attribute whose name an earlier attribute of the tag has.\<close>

fun first_duplicate :: "string list \<Rightarrow> (string \<times> string \<times> nat) list \<Rightarrow> nat option" where
  "first_duplicate seen [] = None"
| "first_duplicate seen ((key, val, off) # attrs) =
     (if key \<in> set seen then Some off else first_duplicate (key # seen) attrs)"

definition finish_start_tag ::
  "string \<Rightarrow> (string \<times> string \<times> nat) list \<Rightarrow> bool \<Rightarrow> nat \<Rightarrow> tag_scan" where
  "finish_start_tag name attrs empty_tag len =
     (case first_duplicate [] attrs of
        Some off \<Rightarrow> Invalid ''duplicate attribute'' off
      | None \<Rightarrow> StartTag name attrs empty_tag len)"

fun scan_attributes ::
  "attr_state \<Rightarrow> nat \<Rightarrow> string \<Rightarrow> (string \<times> string \<times> nat) list \<Rightarrow> string \<Rightarrow> tag_scan" where
  "scan_attributes st off name attrs [] = Partial"
| "scan_attributes AfterName off name attrs (c # cs) =
     (if is_xml_space c then scan_attributes Gap (off + 1) name attrs cs
      else if c = CHR ''>'' then finish_start_tag name attrs False (off + 1)
      else if c = CHR ''/'' then scan_attributes Slash (off + 1) name attrs cs
      else Invalid not_well_formed off)"
| "scan_attributes Gap off name attrs (c # cs) =
     (if is_xml_space c then scan_attributes Gap (off + 1) name attrs cs
      else if c = CHR ''>'' then finish_start_tag name attrs False (off + 1)
      else if c = CHR ''/'' then scan_attributes Slash (off + 1) name attrs cs
      else if is_name_start c then scan_attributes (InKey off [c]) (off + 1) name attrs cs
      else Invalid not_well_formed off)"
| "scan_attributes (InKey k key) off name attrs (c # cs) =
     (if is_name_char c then scan_attributes (InKey k (key @ [c])) (off + 1) name attrs cs
      else if c = CHR ''='' then scan_attributes (AfterEq k key) (off + 1) name attrs cs
      else if is_xml_space c then scan_attributes (AfterKey k key) (off + 1) name attrs cs
      else Invalid not_well_formed off)"
| "scan_attributes (AfterKey k key) off name attrs (c # cs) =
     (if is_xml_space c then scan_attributes (AfterKey k key) (off + 1) name attrs cs
      else if c = CHR ''='' then scan_attributes (AfterEq k key) (off + 1) name attrs cs
      else Invalid not_well_formed off)"
| "scan_attributes (AfterEq k key) off name attrs (c # cs) =
     (if is_xml_space c then scan_attributes (AfterEq k key) (off + 1) name attrs cs
      else if c = CHR 0x22 \<or> c = CHR 0x27
      then scan_attributes (InValue k key c False []) (off + 1) name attrs cs
      else Invalid not_well_formed off)"
| "scan_attributes (InValue k key q cr val) off name attrs (c # cs) =
     (if c = q then scan_attributes AfterValue (off + 1) name (attrs @ [(key, val, k)]) cs
      else if is_xml_char c \<and> c \<noteq> CHR ''<'' \<and> c \<noteq> CHR ''&''
      then
        (if c = CHR 0x0D
         then scan_attributes (InValue k key q True (val @ '' '')) (off + 1) name attrs cs
         else if c = CHR 0x0A \<and> cr
         then scan_attributes (InValue k key q False val) (off + 1) name attrs cs
         else if is_xml_space c
         then scan_attributes (InValue k key q False (val @ '' '')) (off + 1) name attrs cs
         else scan_attributes (InValue k key q False (val @ [c])) (off + 1) name attrs cs)
      else Invalid not_well_formed off)"
| "scan_attributes AfterValue off name attrs (c # cs) =
     (if is_xml_space c then scan_attributes Gap (off + 1) name attrs cs
      else if c = CHR ''>'' then finish_start_tag name attrs False (off + 1)
      else if c = CHR ''/'' then scan_attributes Slash (off + 1) name attrs cs
      else Invalid not_well_formed off)"
| "scan_attributes Slash off name attrs (c # cs) =
     (if c = CHR ''>'' then finish_start_tag name attrs True (off + 1)
      else Invalid not_well_formed off)"

definition scan_end_tag :: "string \<Rightarrow> tag_scan" where
  "scan_end_tag s =
     (case s of
        [] \<Rightarrow> Partial
      | c # cs \<Rightarrow>
          if \<not> is_name_start c then Invalid not_well_formed 2
          else
            (let name = takeWhile is_name_char s;
                 gap = takeWhile is_xml_space (dropWhile is_name_char s);
                 closing = dropWhile is_xml_space (dropWhile is_name_char s)
             in case closing of
                  [] \<Rightarrow> Partial
                | d # ds \<Rightarrow>
                    if d = CHR ''>'' then EndTag name (2 + length name + length gap + 1)
                    else Invalid not_well_formed (2 + length name + length gap)))"

text \<open>\<open>scan_tag s\<close>: the tag whose \<open><\<close> is followed by \<open>s\<close>.\<close>

definition scan_tag :: "string \<Rightarrow> tag_scan" where
  "scan_tag s =
     (case s of
        [] \<Rightarrow> Partial
      | c # cs \<Rightarrow>
          if c = CHR ''/'' then scan_end_tag cs
          else if is_name_start c
          then scan_attributes AfterName (1 + length (takeWhile is_name_char s))
                 (takeWhile is_name_char s) [] (dropWhile is_name_char s)
          else Invalid not_well_formed 1)"

text \<open>The position of the reader: line, column, and whether the last character was a
  carriage return (a line feed after it belongs to the same line end).\<close>

record reader_position =
  pos_line :: int
  pos_column :: int
  after_cr :: bool

definition advance :: "char \<Rightarrow> reader_position \<Rightarrow> reader_position" where
  "advance c p =
     (if c = CHR 0x0D then \<lparr>pos_line = pos_line p + 1, pos_column = 0, after_cr = True\<rparr>
      else if c = CHR 0x0A
      then (if after_cr p then p\<lparr>after_cr := False\<rparr>
            else \<lparr>pos_line = pos_line p + 1, pos_column = 0, after_cr = False\<rparr>)
      else \<lparr>pos_line = pos_line p, pos_column = pos_column p + 1, after_cr = False\<rparr>)"

definition fault_at :: "string \<Rightarrow> reader_position \<Rightarrow> callback" where
  "fault_at msg p =
     FatalError \<lparr>getMessage = msg, exc_LineNumber = pos_line p, exc_ColumnNumber = pos_column p\<rparr>"

definition locator_at :: "reader_position \<Rightarrow> Locator" where
  "locator_at p = \<lparr>getLineNumber = pos_line p, getColumnNumber = pos_column p\<rparr>"

text \<open>
  The calls made while the document is read. \<open>stack\<close> holds the open elements, the
  innermost first; \<open>seen\<close> tells whether the document element has started; \<open>skip\<close>
  counts the characters of the current tag that are still to be passed over.
\<close>

fun expat_content ::
  "string list \<Rightarrow> bool \<Rightarrow> reader_position \<Rightarrow> nat \<Rightarrow> string \<Rightarrow> callback list" where
  "expat_content stack seen p skip [] =
     (if stack = [] \<and> seen then [] else [fault_at ''no element found'' p])"
| "expat_content stack seen p (Suc skip) (c # cs) =
     expat_content stack seen (advance c p) skip cs"
| "expat_content stack seen p 0 (c # cs) =
     (if c = CHR ''<'' then
        (case scan_tag cs of
           Partial \<Rightarrow> [fault_at ''unclosed token'' p]
         | Invalid msg off \<Rightarrow>
             (let q = fold advance (take off (c # cs)) p in [fault_at msg q, fault_at msg q])
         | StartTag name attrs empty_tag len \<Rightarrow>
             if stack = [] \<and> seen
             then [fault_at ''junk after document element'' p,
                   fault_at ''junk after document element'' p]
             else StartElement (locator_at p) name (map (\<lambda>(k, v, off). (k, v)) attrs)
                  # (if empty_tag
                     then EndElement name # expat_content stack True (advance c p) (len - 1) cs
                     else expat_content (name # stack) True (advance c p) (len - 1) cs)
         | EndTag name len \<Rightarrow>
             (case stack of
                [] \<Rightarrow>
                  (let q = advance c p
                   in [fault_at not_well_formed q, fault_at not_well_formed q])
              | innermost # outer \<Rightarrow>
                  if name = innermost
                  then EndElement name # expat_content outer seen (advance c p) (len - 1) cs
                  else
                    (let q = fold advance (take 2 (c # cs)) p
                     in [fault_at ''mismatched tag'' q, fault_at ''mismatched tag'' q])))
      else if is_xml_char c \<and> c \<noteq> CHR ''&''
      then
        (if stack = [] \<and> \<not> is_xml_space c
         then (if seen
               then [fault_at ''junk after document element'' p,
                     fault_at ''junk after document element'' p]
               else [fault_at ''syntax error'' p, fault_at ''syntax error'' p])
         else expat_content stack seen (advance c p) 0 cs)
      else [fault_at not_well_formed p, fault_at not_well_formed p])"

definition expat_reader :: "string \<Rightarrow> callback list" where
  "expat_reader src =
     StartDocument
     # expat_content [] False \<lparr>pos_line = 1, pos_column = 0, after_cr = False\<rparr> 0 src
     @ [EndDocument]"

subsection \<open>Documents, schema indexes and predicates used in the statements\<close>

text \<open>The document \<open><root><a attr="val">\<close>, one line.\<close>

definition text_root_a :: string where
  "text_root_a = ''<root><a attr='' @ [CHR 0x22] @ ''val'' @ [CHR 0x22] @ ''>''"

definition doc_root_a :: Document where
  "doc_root_a = \<lparr>source = text_root_a, lines = [text_root_a]\<rparr>"

text \<open>The truncated document \<open><ro\<close>.\<close>

definition doc_ro :: Document where
  "doc_ro = \<lparr>source = ''<ro'', lines = [''<ro'']\<rparr>"

text \<open>The document \<open><a><b><c></c></b></a>\<close>.\<close>

definition doc_abc :: Document where
  "doc_abc = \<lparr>source = ''<a><b><c></c></b></a>'', lines = [''<a><b><c></c></b></a>'']\<rparr>"

text \<open>The document \<open><a/>\<close> followed by a line end: one line; an editor shows an empty
  second line, where the cursor can stand.\<close>

definition doc_trailing_newline :: Document where
  "doc_trailing_newline =
     \<lparr>source = ''<a/>'' @ [CHR 0x0A], lines = [''<a/>'' @ [CHR 0x0A]]\<rparr>"

text \<open>A document of the single character \<open><\<close>, and a document of two spaces.\<close>

definition doc_lt :: Document where
  "doc_lt = \<lparr>source = ''<'', lines = [''<'']\<rparr>"

definition doc_blank :: Document where
  "doc_blank = \<lparr>source = ''  '', lines = [''  '']\<rparr>"

text \<open>"Empty or whitespace-only", in the words of the specification.\<close>

definition whitespace_only :: "string \<Rightarrow> bool" where
  "whitespace_only s = list_all py_isspace s"

text \<open>Two schema indexes with the nodes \<open>tool\<close> (the root, handle 0) and \<open>inputs\<close>
  (handle 1). For any other name the lookup of the first returns \<open>None\<close>, the lookup of
  the second raises IndexError.\<close>

definition tool_schema :: "nat XsdTree" where
  "tool_schema =
     \<lparr>root = 0,
      find_node_by_name = (\<lambda>name. if name = ''tool'' then Inr (Some 0)
                                    else if name = ''inputs'' then Inr (Some 1)
                                    else Inr None)\<rparr>"

definition strict_schema :: "nat XsdTree" where
  "strict_schema =
     \<lparr>root = 0,
      find_node_by_name = (\<lambda>name. if name = ''tool'' then Inr (Some 0)
                                    else if name = ''inputs'' then Inr (Some 1)
                                    else Inl IndexError)\<rparr>"

definition tool_service :: "nat XmlContextService" where
  "tool_service = \<lparr>xsd_tree = tool_schema\<rparr>"

text \<open>A context as \<open>parse\<close> creates it, with a given stack of open elements.\<close>

definition context_with_stack :: "string list \<Rightarrow> nat XmlContext" where
  "context_with_stack names =
     (XmlContext_init [] Position_default False None UNKNOWN)\<lparr>node_stack := names\<rparr>"

text \<open>The contexts that \<open>parse\<close> returns for \<open>doc_root_a\<close> with the cursor in
  \<open>root\<close> (character 2) and in \<open>attr\<close> (character 10), for \<open>doc_ro\<close> with the cursor
  after \<open>ro\<close> (character 3), and for \<open>doc_abc\<close> with the cursor in \<open>c\<close> (character 7).\<close>

definition context_on_root :: "nat XmlContext" where
  "context_on_root =
     \<lparr>document_line = text_root_a, target_position = \<lparr>line = 0, character = 2\<rparr>,
      is_empty = False, token_name = Some ''root'', token_type = UNKNOWN, node = None,
      node_stack = [''root''], is_tag = Some True, is_attribute = None,
      is_attribute_value = None\<rparr>"

definition context_on_attr :: "nat XmlContext" where
  "context_on_attr =
     \<lparr>document_line = text_root_a, target_position = \<lparr>line = 0, character = 10\<rparr>,
      is_empty = False, token_name = Some ''attr'', token_type = UNKNOWN, node = None,
      node_stack = [''root'', ''a''], is_tag = None, is_attribute = Some True,
      is_attribute_value = None\<rparr>"

definition context_on_ro :: "nat XmlContext" where
  "context_on_ro =
     \<lparr>document_line = ''<ro'', target_position = \<lparr>line = 0, character = 3\<rparr>,
      is_empty = False, token_name = Some ''ro'', token_type = UNKNOWN, node = None,
      node_stack = [], is_tag = Some True, is_attribute = None,
      is_attribute_value = None\<rparr>"

definition context_on_c :: "nat XmlContext" where
  "context_on_c =
     \<lparr>document_line = ''<a><b><c></c></b></a>'',
      target_position = \<lparr>line = 0, character = 7\<rparr>,
      is_empty = False, token_name = Some ''c'', token_type = UNKNOWN, node = None,
      node_stack = [''a'', ''b'', ''c''], is_tag = Some True, is_attribute = None,
      is_attribute_value = None\<rparr>"

text \<open>The context of an empty document, as \<open>parse\<close> returns it.\<close>

definition empty_context :: "nat XmlContext" where
  "empty_context = XmlContext_init [] Position_default True None UNKNOWN"

text \<open>A reader that makes no call at all.\<close>

definition silent_reader :: "string \<Rightarrow> callback list" where
  "silent_reader src = []"

text \<open>A run of the reader is well nested at a depth when no \<open>endElement\<close> comes without
  an open element: the reader calls \<open>endElement\<close> for an element it has started only.\<close>

fun well_nested :: "nat \<Rightarrow> callback list \<Rightarrow> bool" where
  "well_nested depth [] = True"
| "well_nested depth (StartElement loc tag attributes # cbs) = well_nested (Suc depth) cbs"
| "well_nested depth (EndElement tag # cbs) =
     (case depth of 0 \<Rightarrow> False | Suc below \<Rightarrow> well_nested below cbs)"
| "well_nested depth (cb # cbs) = well_nested depth cbs"

text \<open>
  What no handler changes: \<open>frame c c'\<close> says that \<open>c'\<close> has the token type, the empty
  flag, the target position, the line and the node of \<open>c\<close>. \<open>marked c\<close> says that a
  context with a token name has one of the three instance attributes set.
\<close>

definition frame :: "'n XmlContext \<Rightarrow> 'n XmlContext \<Rightarrow> bool" where
  "frame c c' =
     (token_type c' = token_type c \<and> is_empty c' = is_empty c
      \<and> target_position c' = target_position c \<and> document_line c' = document_line c
      \<and> node c' = node c)"

definition marked :: "'n XmlContext \<Rightarrow> bool" where
  "marked c =
     (token_name c = None \<or> is_tag c = Some True \<or> is_attribute c = Some True
      \<or> is_attribute_value c = Some True)"

definition kept :: "'n XmlContext \<Rightarrow> 'n XmlContext \<Rightarrow> bool" where
  "kept c c' = (frame c c' \<and> (marked c \<longrightarrow> marked c'))"

section \<open>Properties\<close>

subsection \<open>What the handlers leave unchanged\<close>

lemma kept_refl: "kept c c"
  by (simp add: kept_def frame_def)

lemma kept_trans: "kept a b \<Longrightarrow> kept b c \<Longrightarrow> kept a c"
  by (simp add: kept_def frame_def)

lemma attributes_loop_kept: "attributes_loop accum items c = (e, c') \<Longrightarrow> kept c c'"
  by (induction items arbitrary: accum)
     (auto simp: Let_def kept_def frame_def marked_def split: if_splits)

lemma build_context_kept:
  "build_context_from_element_line sp tag attrs c = (e, c') \<Longrightarrow> kept c c'"
  by (auto simp: build_context_from_element_line_def Let_def split: if_splits
           dest!: attributes_loop_kept)
     (auto simp: kept_def frame_def marked_def)

lemma startElement_kept: "startElement loc tag attrs c = (e, c') \<Longrightarrow> kept c c'"
  by (auto simp: startElement_def Let_def split: if_splits dest!: build_context_kept)
     (auto simp: kept_def frame_def marked_def)

lemma endElement_kept: "endElement tag c = (e, c') \<Longrightarrow> kept c c'"
  by (auto simp: endElement_def kept_def frame_def marked_def split: if_splits)

lemma try_get_tag_kept:
  "try_get_tag_context_at_line_position t c = (e, c') \<Longrightarrow> kept c c'"
  by (auto simp: try_get_tag_context_at_line_position_def kept_def frame_def marked_def
           split: option.splits if_splits)

lemma attribute_matches_loop_kept: "attribute_matches_loop t ms c = (e, c') \<Longrightarrow> kept c c'"
  by (induction ms) (auto simp: kept_def frame_def marked_def split: if_splits)

lemma try_get_attribute_kept:
  "try_get_attribute_context_at_line_position t c = (e, c') \<Longrightarrow> kept c c'"
  by (auto simp: try_get_attribute_context_at_line_position_def
           dest: attribute_matches_loop_kept)

lemma unclosed_token_kept:
  "try_process_context_from_unclosed_token s c = (e, c') \<Longrightarrow> kept c c'"
  by (auto simp: try_process_context_from_unclosed_token_def Let_def
           split: prod.splits option.splits
           dest!: try_get_tag_kept try_get_attribute_kept intro: kept_trans)

lemma fatalError_kept: "fatalError ex c = (e, c') \<Longrightarrow> kept c c'"
  by (auto simp: fatalError_def Let_def kept_refl split: if_splits dest: unclosed_token_kept)

lemma dispatch_kept: "dispatch cb c = (e, c') \<Longrightarrow> kept c c'"
  by (cases cb)
     (auto simp: kept_refl dest: startElement_kept endElement_kept fatalError_kept)

lemma reader_parse_kept: "reader_parse cbs c = (e, c') \<Longrightarrow> kept c c'"
proof (induction cbs arbitrary: c)
  case Nil
  then show ?case by (simp add: kept_refl)
next
  case (Cons cb cbs)
  obtain e1 c1 where d: "dispatch cb c = (e1, c1)"
    by (cases "dispatch cb c")
  show ?case
  proof (cases e1)
    case None
    with Cons d show ?thesis
      by (auto dest: dispatch_kept intro: kept_trans)
  next
    case (Some a)
    with Cons d show ?thesis
      by (auto dest: dispatch_kept)
  qed
qed

subsection \<open>The shape of a returned context\<close>

lemma parse_cases:
  assumes "fst (parse reader prs d p) = Inr c"
  shows "(is_empty_document d \<and> c = XmlContext_init [] Position_default True None UNKNOWN)
       \<or> (\<not> is_empty_document d \<and>
          (\<exists>l e. py_index (lines d) (line p) = Inr l
             \<and> reader_parse (reader (source d)) (XmlContext_init l p False None UNKNOWN)
                 = (e, c)))"
  using assms
  by (auto simp: parse_def Let_def
           split: if_splits sum.splits prod.splits option.splits error.splits)

lemma update_node_definition_cases:
  "update_node_definition t c0 = Inr c \<Longrightarrow> \<exists>n. c = c0\<lparr>node := n\<rparr>"
  by (auto simp: update_node_definition_def split: sum.splits error.splits)

lemma get_xml_context_cases:
  assumes "fst (get_xml_context reader self d p) = Inr c"
  shows "\<exists>c0 n. fst (parse reader XmlContextParser_init d p) = Inr c0 \<and> c = c0\<lparr>node := n\<rparr>
           \<and> update_node_definition (xsd_tree self) c0 = Inr c"
  using assms
  by (auto simp: get_xml_context_def split: prod.splits sum.splits
           dest: update_node_definition_cases)

lemma parse_result_shape:
  assumes "fst (parse reader prs d p) = Inr c"
  shows "token_type c = UNKNOWN \<and> marked c \<and> (is_empty c \<longleftrightarrow> is_empty_document d)
     \<and> (is_empty c \<longrightarrow> c = XmlContext_init [] Position_default True None UNKNOWN)"
  using parse_cases[OF assms]
proof (elim disjE conjE exE)
  assume "is_empty_document d" "c = XmlContext_init [] Position_default True None UNKNOWN"
  then show ?thesis
    by (simp add: XmlContext_init_def marked_def)
next
  fix l e
  assume ne: "\<not> is_empty_document d"
    and rp: "reader_parse (reader (source d)) (XmlContext_init l p False None UNKNOWN) = (e, c)"
  from reader_parse_kept[OF rp] ne show ?thesis
    by (simp add: kept_def frame_def XmlContext_init_def marked_def)
qed

subsection \<open>The stack, and what can leave the reader\<close>

lemma attributes_loop_raises:
  "attributes_loop accum items c = (e, c') \<Longrightarrow>
     node_stack c' = node_stack c \<and> (e = None \<or> e = Some ContextFoundException)"
  by (induction items arbitrary: accum) (auto simp: Let_def split: if_splits)

text \<open>An element start pushes the name; an element end pops it.\<close>

lemma startElement_pushes:
  "startElement loc tag attrs c = (e, c') \<Longrightarrow>
     node_stack c' = node_stack c @ [tag] \<and> (e = None \<or> e = Some ContextFoundException)"
  by (auto simp: startElement_def build_context_from_element_line_def Let_def
           split: if_splits dest!: attributes_loop_raises)

lemma endElement_pops:
  "node_stack c \<noteq> [] \<Longrightarrow>
     endElement tag c = (None, c\<lparr>node_stack := butlast (node_stack c)\<rparr>)"
  by (simp add: endElement_def)

lemma attribute_matches_loop_raises:
  "attribute_matches_loop t ms c = (e, c') \<Longrightarrow>
     node_stack c' = node_stack c \<and> (e = None \<or> e = Some ContextFoundException)"
  by (induction ms) (auto split: if_splits)

lemma fatalError_raises:
  "fatalError ex c = (e, c') \<Longrightarrow>
     node_stack c' = node_stack c \<and> (e = None \<or> e = Some ContextFoundException)"
  by (auto simp: fatalError_def try_process_context_from_unclosed_token_def
        try_get_tag_context_at_line_position_def
        try_get_attribute_context_at_line_position_def Let_def
      split: if_splits option.splits prod.splits dest!: attribute_matches_loop_raises)

lemma reader_parse_absorbed:
  "well_nested (length (node_stack c)) cbs \<Longrightarrow>
     fst (reader_parse cbs c) = None \<or> fst (reader_parse cbs c) = Some ContextFoundException"
proof (induction cbs arbitrary: c)
  case Nil
  then show ?case by simp
next
  case (Cons cb cbs)
  show ?case
  proof (cases cb)
    case (StartElement loc tag attrs)
    obtain e c1 where s: "startElement loc tag attrs c = (e, c1)"
      by (cases "startElement loc tag attrs c")
    from startElement_pushes[OF s] Cons StartElement s show ?thesis
      by (cases e) auto
  next
    case (EndElement tag)
    with Cons show ?thesis
      by (cases "node_stack c" rule: rev_cases) (auto simp: endElement_def)
  next
    case (FatalError ex)
    obtain e c1 where s: "fatalError ex c = (e, c1)"
      by (cases "fatalError ex c")
    from fatalError_raises[OF s] Cons FatalError s show ?thesis
      by (cases e) auto
  qed (use Cons in auto)
qed

text \<open>With a line inside the document and a well-nested run of the reader, \<open>parse\<close>
  returns a context: the signal ContextFoundException and every fault are absorbed.\<close>

lemma parse_returns:
  assumes "0 \<le> line p" and "line p < int (length (lines d))"
    and "well_nested 0 (reader (source d))"
  shows "\<exists>c :: 'n XmlContext. fst (parse reader prs d p) = Inr c"
proof (cases "is_empty_document d")
  case True
  then show ?thesis by (simp add: parse_def Let_def)
next
  case False
  have i: "py_index (lines d) (line p) = Inr (lines d ! nat (line p))"
    using assms by (simp add: py_index_def)
  let ?c0 = "XmlContext_init (lines d ! nat (line p)) p False None UNKNOWN :: 'n XmlContext"
  obtain e c1 where r: "reader_parse (reader (source d)) ?c0 = (e, c1)"
    by (cases "reader_parse (reader (source d)) ?c0")
  have "well_nested (length (node_stack ?c0)) (reader (source d))"
    using assms(3) by (simp add: XmlContext_init_def)
  from reader_parse_absorbed[OF this] r
  have "e = None \<or> e = Some ContextFoundException"
    by simp
  with False i r show ?thesis
    by (auto simp: parse_def Let_def)
qed

lemma well_nested_append_EndDocument:
  "well_nested depth (cbs @ [EndDocument]) = well_nested depth cbs"
  by (induction depth cbs rule: well_nested.induct) (auto split: nat.splits)

lemma expat_content_well_nested:
  "well_nested (length stack) (expat_content stack seen p skip s)"
proof (induction s arbitrary: stack seen p skip)
  case Nil
  then show ?case by (simp add: fault_at_def)
next
  case (Cons c cs)
  have push: "well_nested (Suc (length st)) (expat_content (name # st) seen' p' skip' cs)"
    for name st seen' p' skip'
    using Cons.IH[of "name # st" seen' p' skip'] by simp
  have push0: "well_nested (Suc 0) (expat_content [name] seen' p' skip' cs)"
    for name seen' p' skip'
    using Cons.IH[of "[name]" seen' p' skip'] by simp
  have nil: "well_nested 0 (expat_content [] seen' p' skip' cs)"
    for seen' p' skip'
    using Cons.IH[of "[]" seen' p' skip'] by simp
  show ?case
  proof (cases skip)
    case (Suc n)
    then show ?thesis by (simp add: Cons.IH)
  next
    case 0
    then show ?thesis
      by (auto simp: fault_at_def Let_def Cons.IH push push0 nil
               split: tag_scan.splits list.splits)
  qed
qed

lemma expat_reader_well_nested: "well_nested 0 (expat_reader src)"
  using expat_content_well_nested[of "[]"]
  by (simp add: expat_reader_def well_nested_append_EndDocument)

text \<open>So it does for the modelled expat reader, whatever the document.\<close>

lemma parse_expat_returns:
  assumes "0 \<le> line p" and "line p < int (length (lines d))"
  shows "\<exists>c :: 'n XmlContext. fst (parse expat_reader prs d p) = Inr c"
  using assms expat_reader_well_nested
  by (rule parse_returns)

subsection \<open>Empty documents and the schema node\<close>

lemma strip_whitespace_only: "whitespace_only s \<Longrightarrow> strip s = []"
  by (induction s) (auto simp: whitespace_only_def strip_def)

lemma is_empty_document_length:
  "is_empty_document d \<longleftrightarrow> length (strip (source d)) < 2"
  by (auto simp: is_empty_document_def Let_def)

lemma parse_empty_document:
  "is_empty_document d \<Longrightarrow>
     fst (parse reader prs d p) = Inr (XmlContext_init [] Position_default True None UNKNOWN)"
  by (simp add: parse_def Let_def)

lemma py_index_last: "xs \<noteq> [] \<Longrightarrow> py_index xs (- 1) = Inr (last xs)"
  by (cases xs rule: rev_cases) (auto simp: py_index_def nth_append)

lemma py_index_nil: "py_index [] i = Inl IndexError"
  by (simp add: py_index_def)

text \<open>The calls of the reader for the three documents of the claims.\<close>

lemma expat_reader_root_a:
  "expat_reader text_root_a =
     [StartDocument,
      StartElement \<lparr>getLineNumber = 1, getColumnNumber = 0\<rparr> ''root'' [],
      StartElement \<lparr>getLineNumber = 1, getColumnNumber = 6\<rparr> ''a'' [(''attr'', ''val'')],
      FatalError \<lparr>getMessage = ''no element found'', exc_LineNumber = 1,
                  exc_ColumnNumber = 20\<rparr>,
      EndDocument]"
  by code_simp

lemma expat_reader_ro:
  "expat_reader ''<ro'' =
     [StartDocument,
      FatalError \<lparr>getMessage = ''unclosed token'', exc_LineNumber = 1,
                  exc_ColumnNumber = 0\<rparr>,
      EndDocument]"
  by code_simp

lemma expat_reader_abc:
  "expat_reader ''<a><b><c></c></b></a>'' =
     [StartDocument,
      StartElement \<lparr>getLineNumber = 1, getColumnNumber = 0\<rparr> ''a'' [],
      StartElement \<lparr>getLineNumber = 1, getColumnNumber = 3\<rparr> ''b'' [],
      StartElement \<lparr>getLineNumber = 1, getColumnNumber = 6\<rparr> ''c'' [],
      EndElement ''c'', EndElement ''b'', EndElement ''a'', EndDocument]"
  by code_simp

text \<open>The span of a tag name ends at the start column plus the length of the name: with
  the cursor after the \<open>t\<close> of \<open>root\<close> (character 5) no token is resolved.\<close>

lemma cursor_after_root_unresolved:
  "fst (parse expat_reader XmlContextParser_init doc_root_a \<lparr>line = 0, character = 5\<rparr>)
     = Inr ((XmlContext_init text_root_a \<lparr>line = 0, character = 5\<rparr> False None UNKNOWN
              :: nat XmlContext)\<lparr>node_stack := [''root'', ''a'']\<rparr>)"
  by code_simp

subsection \<open>Claims\<close>

text \<open>
  C1. The claim: for every document and every position \<open>get_xml_context\<close> returns a
  context and raises nothing, also for a position whose line is outside the lines of the
  document. The signal and the faults are absorbed (\<open>parse_returns\<close>), but the code
  reads \<open>document.lines[position.line]\<close> before it parses: for the document \<open><a/>\<close>
  followed by a line end and the cursor on the line after it (line 1), IndexError leaves
  \<open>get_xml_context\<close>, whatever the reader and the schema index are.
\<close>

theorem index_error_leaves_get_xml_context:
  "fst (get_xml_context reader self doc_trailing_newline \<lparr>line = 1, character = 0\<rparr>)
     = Inl IndexError"
  by (simp add: get_xml_context_def parse_def is_empty_document_def strip_def py_isspace_def
        py_index_def doc_trailing_newline_def Let_def)

text \<open>
  C2. The claim: for the document \<open><root><a attr="val">\<close> and the cursor in the name
  \<open>root\<close>, the returned context has the token type TAG and the token name \<open>root\<close>. The
  code, with the cursor at character 2: the token name is \<open>root\<close> and the instance
  attribute \<open>is_tag\<close> is True, but the token type is still UNKNOWN.
\<close>

theorem cursor_in_root_keeps_unknown:
  "fst (parse expat_reader XmlContextParser_init doc_root_a \<lparr>line = 0, character = 2\<rparr>)
     = Inr context_on_root
   \<and> token_name context_on_root = Some ''root''
   \<and> token_type context_on_root = UNKNOWN"
  by code_simp

text \<open>
  C3. For every document and every position, the context that the public operation
  \<open>get_xml_context\<close> returns has token type UNKNOWN: \<open>token_type\<close> is written by the
  constructor only. What the handlers write instead are the instance attributes
  \<open>is_tag\<close>, \<open>is_attribute\<close> and \<open>is_attribute_value\<close>: a returned context with a token
  name has one of them set to True, and a call of the query method \<open>is_tag()\<close> or
  \<open>is_attribute_value()\<close> on a context where the attribute of that name is set raises
  TypeError, the attribute hiding the method.
\<close>

theorem token_type_always_unknown:
  "fst (get_xml_context reader self document position) = Inr context \<Longrightarrow>
     token_type context = UNKNOWN
     \<and> (token_name context \<noteq> None \<longrightarrow>
          is_tag context = Some True \<or> is_attribute context = Some True
          \<or> is_attribute_value context = Some True)
     \<and> (is_tag context = Some True \<longrightarrow> call_is_tag context = Inl TypeError)
     \<and> (is_attribute_value context = Some True \<longrightarrow>
          call_is_attribute_value context = Inl TypeError)"
proof -
  assume a: "fst (get_xml_context reader self document position) = Inr context"
  from get_xml_context_cases[OF a] obtain c0 n
    where p: "fst (parse reader XmlContextParser_init document position) = Inr c0"
      and c: "context = c0\<lparr>node := n\<rparr>"
    by blast
  from parse_result_shape[OF p] c show ?thesis
    by (auto simp: marked_def call_is_tag_def call_is_attribute_value_def)
qed

theorem token_type_always_unknown_witness:
  "fst (get_xml_context expat_reader tool_service doc_root_a \<lparr>line = 0, character = 2\<rparr>)
     = Inr context_on_root
   \<and> token_type context_on_root = UNKNOWN
   \<and> token_name context_on_root = Some ''root''
   \<and> is_tag context_on_root = Some True
   \<and> call_is_tag context_on_root = Inl TypeError"
proof -
  have h: "fst (get_xml_context expat_reader tool_service doc_root_a
                  \<lparr>line = 0, character = 2\<rparr>) = Inr context_on_root"
    by code_simp
  from token_type_always_unknown[OF h] h show ?thesis
    by (simp add: context_on_root_def)
qed

text \<open>
  C4. The claim: for the truncated line \<open><ro\<close> with the cursor after \<open>ro\<close>, where the
  reader reports the fault \<open>unclosed token\<close>, the returned context has the token type
  TAG and the token name \<open>ro\<close>. The code: the error handler finds the name \<open>ro\<close> by
  pattern matching and sets the instance attribute \<open>is_tag\<close>, but the token type is still
  UNKNOWN.
\<close>

theorem cursor_after_ro_keeps_unknown:
  "fst (parse expat_reader XmlContextParser_init doc_ro \<lparr>line = 0, character = 3\<rparr>)
     = Inr context_on_ro
   \<and> token_name context_on_ro = Some ''ro''
   \<and> token_type context_on_ro = UNKNOWN"
  by code_simp

text \<open>
  C5. The claim: for the document \<open><root><a attr="val">\<close> and the cursor in the key of
  the first attribute, the returned context has the token type ATTRIBUTE_KEY and the token
  name \<open>attr\<close>. The code, with the cursor at character 10: the token name is \<open>attr\<close> and
  the instance attribute \<open>is_attribute\<close> is True, but the token type is still UNKNOWN.
\<close>

theorem cursor_in_attr_keeps_unknown:
  "fst (parse expat_reader XmlContextParser_init doc_root_a \<lparr>line = 0, character = 10\<rparr>)
     = Inr context_on_attr
   \<and> token_name context_on_attr = Some ''attr''
   \<and> token_type context_on_attr = UNKNOWN"
  by code_simp

text \<open>
  C6. For the document \<open><a><b><c></c></b></a>\<close> and the cursor in the span of the tag
  name \<open>c\<close> (the start tag of \<open>c\<close> is at column 6, so the span is the characters after 6
  up to 7), the stack of the returned context is \<open>a\<close>, \<open>b\<close>, \<open>c\<close>: the three start tags
  pushed their names, and parsing stopped before any end tag.
\<close>

theorem ancestor_stack_at_c:
  "6 < ch \<Longrightarrow> ch \<le> 7 \<Longrightarrow>
     fst (parse expat_reader XmlContextParser_init doc_abc \<lparr>line = 0, character = ch\<rparr>)
       = Inr (context_on_c\<lparr>target_position := \<lparr>line = 0, character = ch\<rparr>\<rparr>)
     \<and> node_stack (context_on_c\<lparr>target_position := \<lparr>line = 0, character = ch\<rparr>\<rparr>)
         = [''a'', ''b'', ''c'']"
proof -
  assume "6 < ch" and "ch \<le> 7"
  then have ch: "ch = 7"
    by simp
  have "fst (parse expat_reader XmlContextParser_init doc_abc \<lparr>line = 0, character = 7\<rparr>)
          = Inr (context_on_c\<lparr>target_position := \<lparr>line = 0, character = 7\<rparr>\<rparr>)
        \<and> node_stack (context_on_c\<lparr>target_position := \<lparr>line = 0, character = 7\<rparr>\<rparr>)
            = [''a'', ''b'', ''c'']"
    by code_simp
  with ch show ?thesis
    by simp
qed

theorem ancestor_stack_at_c_witness:
  "(6::int) < 7 \<and> (7::int) \<le> 7
   \<and> fst (parse expat_reader XmlContextParser_init doc_abc \<lparr>line = 0, character = 7\<rparr>)
       = Inr context_on_c
   \<and> node_stack context_on_c = [''a'', ''b'', ''c'']"
  using ancestor_stack_at_c[of 7]
  by (simp add: context_on_c_def)

text \<open>
  C7. The claim: the returned context has \<open>is_empty\<close> exactly when the whole document is
  empty or whitespace-only. It fails for the document \<open><\<close>: one character that is no
  whitespace, and the context is the empty one.
\<close>

theorem single_character_document_is_empty:
  "fst (parse expat_reader XmlContextParser_init doc_lt \<lparr>line = 0, character = 1\<rparr>)
     = Inr empty_context
   \<and> is_empty empty_context
   \<and> \<not> whitespace_only (source doc_lt)"
  by code_simp

text \<open>
  C7, amended. The returned context has \<open>is_empty\<close> exactly when the text of the
  document, with the whitespace at both ends removed, has fewer than 2 characters; so it
  has for every empty or whitespace-only document. When \<open>is_empty\<close> is true, the
  context is the one the constructor makes with \<open>is_empty=True\<close> (every other field at
  its default), and it is returned without parsing: for every reader, parser object and
  position the result is the same.
\<close>

theorem is_empty_iff_stripped_length_below_2:
  "fst (parse reader prs document position) = Inr context \<Longrightarrow>
     (is_empty context \<longleftrightarrow> length (strip (source document)) < 2)
     \<and> (whitespace_only (source document) \<longrightarrow> is_empty context)
     \<and> (is_empty context \<longrightarrow>
          context = XmlContext_init [] Position_default True None UNKNOWN
          \<and> fst (parse reader' prs' document position') = Inr context)"
proof -
  assume a: "fst (parse reader prs document position) = Inr context"
  from parse_result_shape[OF a]
  have e: "is_empty context \<longleftrightarrow> is_empty_document document"
    and i: "is_empty context \<longrightarrow>
              context = XmlContext_init [] Position_default True None UNKNOWN"
    by simp_all
  have w: "whitespace_only (source document) \<longrightarrow> is_empty context"
    using e strip_whitespace_only[of "source document"]
    by (auto simp: is_empty_document_def)
  from e i w show ?thesis
    by (auto simp: is_empty_document_length parse_empty_document)
qed

theorem is_empty_iff_stripped_length_below_2_witness:
  "fst (parse expat_reader XmlContextParser_init doc_blank \<lparr>line = 3, character = 4\<rparr>)
     = Inr empty_context
   \<and> is_empty empty_context
   \<and> whitespace_only (source doc_blank)
   \<and> length (strip (source doc_blank)) < 2
   \<and> empty_context = XmlContext_init [] Position_default True None UNKNOWN
   \<and> fst (parse silent_reader XmlContextParser_init doc_blank \<lparr>line = 0, character = 0\<rparr>)
       = Inr empty_context"
proof -
  have h: "fst (parse expat_reader XmlContextParser_init doc_blank
                  \<lparr>line = 3, character = 4\<rparr>) = Inr empty_context"
    by code_simp
  have w: "whitespace_only (source doc_blank)"
    by code_simp
  from is_empty_iff_stripped_length_below_2[OF h, of silent_reader XmlContextParser_init
         "\<lparr>line = 0, character = 0\<rparr>"] h w
  show ?thesis
    by (simp add: empty_context_def XmlContext_init_def)
qed

text \<open>
  C8. The claim: the schema node is the result of looking up the last name of the stack,
  and the root handle when that lookup fails or the stack is empty; a failed lookup
  never leaves the node absent. It fails for the document \<open><root><a attr="val">\<close> with
  the cursor in \<open>root\<close> and a schema index that has no node \<open>root\<close> and answers
  \<open>None\<close>: the stack is \<open>root\<close> and the node of the returned context is absent.
\<close>

theorem failed_lookup_leaves_node_absent:
  "fst (get_xml_context expat_reader tool_service doc_root_a \<lparr>line = 0, character = 2\<rparr>)
     = Inr context_on_root
   \<and> node_stack context_on_root = [''root'']
   \<and> find_node_by_name (xsd_tree tool_service) ''root'' = Inr None
   \<and> node context_on_root = None
   \<and> node context_on_root \<noteq> Some (root (xsd_tree tool_service))"
  by code_simp

text \<open>
  C8, amended. With an empty stack the node is the root handle of the schema index. With
  a stack that is not empty, the node is what the lookup of the last name returns, absent
  when the lookup returns nothing; it is the root handle when the lookup raises
  IndexError.
\<close>

theorem node_from_last_name_or_root:
  "(node_stack context = [] \<longrightarrow>
      update_node_definition tree context = Inr (context\<lparr>node := Some (root tree)\<rparr>))
   \<and> (node_stack context \<noteq> [] \<longrightarrow>
        find_node_by_name tree (last (node_stack context)) = Inr found \<longrightarrow>
        update_node_definition tree context = Inr (context\<lparr>node := found\<rparr>))
   \<and> (node_stack context \<noteq> [] \<longrightarrow>
        find_node_by_name tree (last (node_stack context)) = Inl IndexError \<longrightarrow>
        update_node_definition tree context = Inr (context\<lparr>node := Some (root tree)\<rparr>))"
  by (auto simp: update_node_definition_def py_index_last py_index_nil)

theorem node_from_last_name_or_root_witness:
  "update_node_definition tool_schema (context_with_stack [])
     = Inr ((context_with_stack [])\<lparr>node := Some 0\<rparr>)
   \<and> update_node_definition tool_schema (context_with_stack [''tool'', ''inputs''])
     = Inr ((context_with_stack [''tool'', ''inputs''])\<lparr>node := Some 1\<rparr>)
   \<and> update_node_definition tool_schema (context_with_stack [''tool'', ''b''])
     = Inr ((context_with_stack [''tool'', ''b''])\<lparr>node := None\<rparr>)
   \<and> update_node_definition strict_schema (context_with_stack [''tool'', ''b''])
     = Inr ((context_with_stack [''tool'', ''b''])\<lparr>node := Some 0\<rparr>)"
  using node_from_last_name_or_root[of "context_with_stack []" tool_schema]
    node_from_last_name_or_root[of "context_with_stack [''tool'', ''inputs'']" tool_schema
      "Some 1"]
    node_from_last_name_or_root[of "context_with_stack [''tool'', ''b'']" tool_schema None]
    node_from_last_name_or_root[of "context_with_stack [''tool'', ''b'']" strict_schema]
  by (simp add: context_with_stack_def tool_schema_def strict_schema_def XmlContext_init_def)


text \<open>
  C10. For every context that \<open>get_xml_context\<close> returns: a token type other than
  UNKNOWN comes with a token name, and \<open>is_empty\<close> comes with the token type UNKNOWN and
  no token name. The first part holds because the token type of a returned context is
  always UNKNOWN; the second because \<open>is_empty\<close> is set for the context of an empty
  document only, which no handler touches.
\<close>

theorem context_invariants:
  "fst (get_xml_context reader self document position) = Inr context \<Longrightarrow>
     (token_type context \<noteq> UNKNOWN \<longrightarrow> token_name context \<noteq> None)
     \<and> (is_empty context \<longrightarrow> token_type context = UNKNOWN \<and> token_name context = None)"
proof -
  assume a: "fst (get_xml_context reader self document position) = Inr context"
  from get_xml_context_cases[OF a] obtain c0 n
    where p: "fst (parse reader XmlContextParser_init document position) = Inr c0"
      and c: "context = c0\<lparr>node := n\<rparr>"
    by blast
  from parse_result_shape[OF p] c show ?thesis
    by (auto simp: XmlContext_init_def)
qed

theorem context_invariants_witness:
  "fst (get_xml_context expat_reader tool_service doc_blank \<lparr>line = 0, character = 1\<rparr>)
     = Inr (empty_context\<lparr>node := Some 0\<rparr>)
   \<and> is_empty (empty_context\<lparr>node := Some 0\<rparr>)
   \<and> token_type (empty_context\<lparr>node := Some 0\<rparr>) = UNKNOWN
   \<and> token_name (empty_context\<lparr>node := Some 0\<rparr>) = None"
proof -
  have h: "fst (get_xml_context expat_reader tool_service doc_blank
                  \<lparr>line = 0, character = 1\<rparr>) = Inr (empty_context\<lparr>node := Some 0\<rparr>)"
    by code_simp
  have e: "is_empty (empty_context\<lparr>node := Some 0\<rparr>)"
    by code_simp
  from context_invariants[OF h] h e show ?thesis
    by simp
qed

end
